theory Spec2Isabelle
  imports Main "HOL-Library.AList"
begin

section \<open>Values, documents and the document store\<close>

text \<open>
  Request bodies and the fields of stored documents are JSON-like Python values.
  A Python \<open>dict\<close> is an association list: insertion order is kept and a lookup
  (\<open>map_of\<close>) finds the entry of a key. Strings are \<open>string\<close>; a character outside
  ASCII is written as its UTF-8 bytes. An \<open>int\<close> is unbounded. A \<open>float\<close> is a
  double: \<open>Finite m e\<close> is the number \<open>m * 2 ^ e\<close>, \<open>Infinity True\<close> is the
  negative infinity.
\<close>

datatype pyfloat = Finite int int | Infinity bool | NaN

datatype val =
    VNone
  | VBool bool
  | VInt int
  | VFloat pyfloat
  | VStr string
  | VList "val list"
  | VDict "(string \<times> val) list"

type_synonym pydict = "(string \<times> val) list"

text \<open>
  The value under the key \<open>_id\<close> of a document: the \<open>ObjectId\<close> the driver
  generated (a 96-bit number), or a \<open>str\<close> once a handler has executed
  \<^verbatim>\<open>d["_id"] = str(d.get("_id"))\<close>.
\<close>

datatype idval = Oid nat | IdStr string

definition hexdigit :: "nat \<Rightarrow> char" where
  "hexdigit k = ''0123456789abcdef'' ! (k mod 16)"

text \<open>\<open>str(ObjectId(...))\<close>: 24 lower-case hexadecimal digits.\<close>

definition str_ObjectId :: "nat \<Rightarrow> string" where
  "str_ObjectId n = map (\<lambda>i. hexdigit (n div 16 ^ (23 - i))) [0..<24]"

fun str_id :: "idval \<Rightarrow> string" where
  "str_id (Oid n) = str_ObjectId n"
| "str_id (IdStr s) = s"

text \<open>
  A document is a dict that always has the key \<open>_id\<close>; the record keeps that entry
  apart from the remaining fields.
\<close>

record document =
  doc_id :: idval
  doc_fields :: pydict

text \<open>\<^verbatim>\<open>d["_id"] = str(d.get("_id"))\<close>\<close>

definition stringify_id :: "document \<Rightarrow> document" where
  "stringify_id d = d\<lparr>doc_id := IdStr (str_id (doc_id d))\<rparr>"

text \<open>
  The database behind the handle \<open>db\<close>: its collections by name (a collection that
  was never written to does not exist and reads as empty), the counter from which the
  next \<open>ObjectId\<close> is drawn, and \<open>fault\<close>: when the server cannot be reached, the
  message of the exception that every driver call raises. The module-level handle
  \<open>db\<close> itself is a \<open>database option\<close>, \<open>None\<close> when storage is not configured.
\<close>

record database =
  colls :: "(string \<times> document list) list"
  next_oid :: nat
  fault :: "string option"

subsection \<open>Exceptions and HTTP status\<close>

datatype loc_item = Key string | Idx nat

datatype verr_type =
    Missing
  | StringType
  | IntType
  | IntParsing
  | IntFromFloat
  | FiniteNumber
  | IntParsingSize
  | ListType
  | ModelType
  | UrlParsing
  | GreaterThanEqual int

type_synonym verr = "loc_item list \<times> verr_type"

text \<open>
  \<open>HTTPException\<close> is what the handlers raise themselves; \<open>RequestValidationError\<close>
  is raised by the framework when a request body does not validate against the
  handler's schema; \<open>PyError\<close> is any other exception, with its \<open>str\<close>.
\<close>

datatype exn =
    HTTPException nat string
  | RequestValidationError "verr list"
  | PyError string

fun str_exn :: "exn \<Rightarrow> string" where
  "str_exn (HTTPException s detail) = detail"
| "str_exn (RequestValidationError es) = ''validation error''"
| "str_exn (PyError m) = m"

text \<open>
  The status the framework answers with: 200 for a returned value, the status of an
  \<open>HTTPException\<close>, 422 for a body that failed validation, 500 for an exception that
  nothing handled.
\<close>

fun status_code :: "exn + 'a \<Rightarrow> nat" where
  "status_code (Inr v) = 200"
| "status_code (Inl (HTTPException s detail)) = s"
| "status_code (Inl (RequestValidationError es)) = 422"
| "status_code (Inl (PyError m)) = 500"

definition is_client_error :: "nat \<Rightarrow> bool" where
  "is_client_error s = (400 \<le> s \<and> s < 500)"

subsection \<open>The driver's operations\<close>

text \<open>\<^verbatim>\<open>db[name]\<close>\<close>

definition collection :: "database \<Rightarrow> string \<Rightarrow> document list" where
  "collection d name = (case map_of (colls d) name of None \<Rightarrow> [] | Some ds \<Rightarrow> ds)"

text \<open>
  The filters of the handlers are \<^verbatim>\<open>{}\<close> and \<^verbatim>\<open>{k: s}\<close> with a string \<open>s\<close>. The
  store's equality match of a field with a string holds when the field is that very
  string, and also when the field is an array that has the string among its elements.
  A filter matches a document when every entry does; the empty filter matches every
  document.
\<close>

type_synonym str_filter = "(string \<times> string) list"

fun field_matches :: "val option \<Rightarrow> string \<Rightarrow> bool" where
  "field_matches (Some (VStr t)) s = (t = s)"
| "field_matches (Some (VList xs)) s = (VStr s \<in> set xs)"
| "field_matches v s = False"

definition matches :: "str_filter \<Rightarrow> document \<Rightarrow> bool" where
  "matches q doc = list_all (\<lambda>kv. field_matches (map_of (doc_fields doc) (fst kv)) (snd kv)) q"

definition raise_fault :: "database \<Rightarrow> 'a \<Rightarrow> exn + 'a" where
  "raise_fault d v = (case fault d of Some m \<Rightarrow> Inl (PyError m) | None \<Rightarrow> Inr v)"

definition count_documents :: "database \<Rightarrow> string \<Rightarrow> str_filter \<Rightarrow> exn + nat" where
  "count_documents d name q = raise_fault d (length (filter (matches q) (collection d name)))"

definition find_docs :: "database \<Rightarrow> string \<Rightarrow> str_filter \<Rightarrow> exn + document list" where
  "find_docs d name q = raise_fault d (filter (matches q) (collection d name))"

definition find_one :: "database \<Rightarrow> string \<Rightarrow> str_filter \<Rightarrow> exn + document option" where
  "find_one d name q = raise_fault d (List.find (matches q) (collection d name))"

definition list_collection_names :: "database \<Rightarrow> exn + string list" where
  "list_collection_names d = raise_fault d (map fst (colls d))"

definition insert_one :: "database \<Rightarrow> string \<Rightarrow> pydict \<Rightarrow> (exn + idval) \<times> database" where
  "insert_one d name data =
     (case fault d of
        Some m \<Rightarrow> (Inl (PyError m), d)
      | None \<Rightarrow>
          (Inr (Oid (next_oid d)),
           d\<lparr>colls := AList.update name
                (collection d name @ [\<lparr>doc_id = Oid (next_oid d), doc_fields = data\<rparr>])
                (colls d),
             next_oid := Suc (next_oid d)\<rparr>))"

subsection \<open>The storage accessor\<close>

text \<open>
  Modelled from the spec: the module \<open>database\<close> (\<open>create_document\<close>,
  \<open>get_documents\<close>) is imported by \<open>main.py\<close> and is not among the sources.
  \<open>create\<close> serializes the validated entity and inserts it, appending one document to
  the named collection, and returns the newly assigned identifier as a string;
  with the store unconfigured or unreachable it fails. The entity arrives here already
  serialized (\<open>model_dump_\<dots>\<close> below).
\<close>

definition create_document ::
  "database option \<Rightarrow> string \<Rightarrow> pydict \<Rightarrow> (exn + string) \<times> database option" where
  "create_document db name data =
     (case db of
        None \<Rightarrow> (Inl (PyError ''Database not available''), None)
      | Some d \<Rightarrow>
          (case insert_one d name data of
             (Inl e, d') \<Rightarrow> (Inl e, Some d')
           | (Inr i, d') \<Rightarrow> (Inr (str_id i), Some d')))"

text \<open>
  Modelled from the spec: \<open>list\<close> returns all documents matching an optional equality
  filter, each annotated with its string identifier; with the store unconfigured or
  unreachable it fails.
\<close>

definition get_documents ::
  "database option \<Rightarrow> string \<Rightarrow> str_filter option \<Rightarrow> exn + document list" where
  "get_documents db name filter_dict =
     (case db of
        None \<Rightarrow> Inl (PyError ''Database not available'')
      | Some d \<Rightarrow>
          (case find_docs d name (case filter_dict of None \<Rightarrow> [] | Some q \<Rightarrow> q) of
             Inl e \<Rightarrow> Inl e
           | Inr docs \<Rightarrow> Inr (map stringify_id docs)))"

section \<open>The read endpoints\<close>

text \<open>\<open>GET /products\<close>\<close>

definition list_products :: "database option \<Rightarrow> exn + document list" where
  "list_products db =
     (case db of
        None \<Rightarrow> Inr []
      | Some d \<Rightarrow>
          (case get_documents db ''product'' None of
             Inl e \<Rightarrow> Inl e
           | Inr docs \<Rightarrow> Inr (map stringify_id docs)))"

text \<open>\<open>GET /products/{slug}\<close>\<close>

definition get_product :: "database option \<Rightarrow> string \<Rightarrow> exn + document" where
  "get_product db slug =
     (case db of
        None \<Rightarrow> Inl (HTTPException 500 ''Database not configured'')
      | Some d \<Rightarrow>
          (case find_one d ''product'' [(''slug'', slug)] of
             Inl e \<Rightarrow> Inl e
           | Inr None \<Rightarrow> Inl (HTTPException 404 ''Not found'')
           | Inr (Some doc) \<Rightarrow> Inr (stringify_id doc)))"

text \<open>
  \<open>GET /solutions\<close>. The query parameter is \<open>None\<close> when absent;
  \<^verbatim>\<open>{"segment": segment} if segment else {}\<close> tests its truthiness, and the empty
  string is falsy.
\<close>

definition list_solutions :: "database option \<Rightarrow> string option \<Rightarrow> exn + document list" where
  "list_solutions db segment =
     (case db of
        None \<Rightarrow> Inr []
      | Some d \<Rightarrow>
          (let filter_q =
                 (case segment of
                    None \<Rightarrow> []
                  | Some s \<Rightarrow> if s = [] then [] else [(''segment'', s)])
           in case find_docs d ''industrysolution'' filter_q of
                Inl e \<Rightarrow> Inl e
              | Inr docs \<Rightarrow> Inr (map stringify_id docs)))"

section \<open>Schemas\<close>

text \<open>
  The entities of \<open>schemas.py\<close>. A field declared \<open>Optional[T]\<close> is a \<open>T option\<close>; a
  field declared \<open>HttpUrl\<close> holds the URL in the form the validation library gives
  it, as a string.
\<close>

record Certification =
  name :: string
  pdf_url :: string
  standard :: "string option"

record Product =
  slug :: string
  name :: string
  category :: string
  description :: string
  image_url :: string
  spec_pdf_url :: string
  certifications :: "Certification list"
  tags :: "string list"

record IndustrySolution =
  slug :: string
  title :: string
  segment :: string
  problem :: string
  solution :: string
  related_products :: "string list"
  content :: "string option"

record CaseStudy =
  slug :: string
  title :: string
  client :: string
  location :: "string option"
  challenge :: string
  solution :: string
  outcome :: string
  products_used :: "string list"
  image_url :: "string option"

record RFQ =
  company_name :: string
  contact_name :: string
  email :: string
  phone :: "string option"
  project_name :: "string option"
  project_description :: "string option"
  specifications :: "string option"
  product_slugs :: "string list"
  quantity :: "int option"
  timeline :: "string option"
  location :: "string option"
  "notes" :: "string option"

subsection \<open>Serialization\<close>

text \<open>
  The dict of an entity: one entry per declared field, in the order of declaration,
  \<open>None\<close> for an absent optional field.
\<close>

definition dump_opt_str :: "string option \<Rightarrow> val" where
  "dump_opt_str x = (case x of None \<Rightarrow> VNone | Some s \<Rightarrow> VStr s)"

definition dump_opt_int :: "int option \<Rightarrow> val" where
  "dump_opt_int x = (case x of None \<Rightarrow> VNone | Some n \<Rightarrow> VInt n)"

definition dump_str_list :: "string list \<Rightarrow> val" where
  "dump_str_list xs = VList (map VStr xs)"

definition model_dump_Certification :: "Certification \<Rightarrow> pydict" where
  "model_dump_Certification c =
     [(''name'', VStr (Certification.name c)),
      (''pdf_url'', VStr (Certification.pdf_url c)),
      (''standard'', dump_opt_str (Certification.standard c))]"

definition model_dump_Product :: "Product \<Rightarrow> pydict" where
  "model_dump_Product p =
     [(''slug'', VStr (Product.slug p)),
      (''name'', VStr (Product.name p)),
      (''category'', VStr (Product.category p)),
      (''description'', VStr (Product.description p)),
      (''image_url'', VStr (Product.image_url p)),
      (''spec_pdf_url'', VStr (Product.spec_pdf_url p)),
      (''certifications'',
         VList (map (\<lambda>c. VDict (model_dump_Certification c)) (Product.certifications p))),
      (''tags'', dump_str_list (Product.tags p))]"

definition model_dump_IndustrySolution :: "IndustrySolution \<Rightarrow> pydict" where
  "model_dump_IndustrySolution x =
     [(''slug'', VStr (IndustrySolution.slug x)),
      (''title'', VStr (IndustrySolution.title x)),
      (''segment'', VStr (IndustrySolution.segment x)),
      (''problem'', VStr (IndustrySolution.problem x)),
      (''solution'', VStr (IndustrySolution.solution x)),
      (''related_products'', dump_str_list (IndustrySolution.related_products x)),
      (''content'', dump_opt_str (IndustrySolution.content x))]"

definition model_dump_CaseStudy :: "CaseStudy \<Rightarrow> pydict" where
  "model_dump_CaseStudy x =
     [(''slug'', VStr (CaseStudy.slug x)),
      (''title'', VStr (CaseStudy.title x)),
      (''client'', VStr (CaseStudy.client x)),
      (''location'', dump_opt_str (CaseStudy.location x)),
      (''challenge'', VStr (CaseStudy.challenge x)),
      (''solution'', VStr (CaseStudy.solution x)),
      (''outcome'', VStr (CaseStudy.outcome x)),
      (''products_used'', dump_str_list (CaseStudy.products_used x)),
      (''image_url'', dump_opt_str (CaseStudy.image_url x))]"

definition model_dump_RFQ :: "RFQ \<Rightarrow> pydict" where
  "model_dump_RFQ x =
     [(''company_name'', VStr (RFQ.company_name x)),
      (''contact_name'', VStr (RFQ.contact_name x)),
      (''email'', VStr (RFQ.email x)),
      (''phone'', dump_opt_str (RFQ.phone x)),
      (''project_name'', dump_opt_str (RFQ.project_name x)),
      (''project_description'', dump_opt_str (RFQ.project_description x)),
      (''specifications'', dump_opt_str (RFQ.specifications x)),
      (''product_slugs'', dump_str_list (RFQ.product_slugs x)),
      (''quantity'', dump_opt_int (RFQ.quantity x)),
      (''timeline'', dump_opt_str (RFQ.timeline x)),
      (''location'', dump_opt_str (RFQ.location x)),
      (''notes'', dump_opt_str (RFQ.notes x))]"

subsection \<open>Validation\<close>

text \<open>
  Validating a value against a schema gives the entity, or the list of all errors, each
  with the location of the offending field. Keys that the schema does not declare are
  ignored. The validation library works in its lax mode, in which an \<open>int\<close> field
  also takes a \<open>bool\<close>, a whole \<open>float\<close> and a numeric string.

  Two parts of the library are parameters of the validators: \<open>http_url\<close>, which
  parses a string as an \<open>HttpUrl\<close> and gives the URL in normalised form, or \<open>None\<close>
  for a string that is not one; and \<open>str_as_int\<close>, which reads a numeric string.
\<close>

type_synonym 'a validated = "verr list + 'a"

definition at_loc :: "loc_item \<Rightarrow> 'a validated \<Rightarrow> 'a validated" where
  "at_loc k r = (case r of Inl es \<Rightarrow> Inl (map (\<lambda>e. (k # fst e, snd e)) es) | Inr v \<Rightarrow> Inr v)"

text \<open>All fields are validated and the errors of all of them are reported.\<close>

fun ap :: "('a \<Rightarrow> 'b) validated \<Rightarrow> 'a validated \<Rightarrow> 'b validated" where
  "ap (Inr f) (Inr x) = Inr (f x)"
| "ap (Inr f) (Inl es) = Inl es"
| "ap (Inl es) (Inr x) = Inl es"
| "ap (Inl es) (Inl es') = Inl (es @ es')"

fun validate_str :: "val \<Rightarrow> string validated" where
  "validate_str (VStr s) = Inr s"
| "validate_str v = Inl [([], StringType)]"

fun validate_url :: "(string \<Rightarrow> string option) \<Rightarrow> val \<Rightarrow> string validated" where
  "validate_url http_url (VStr s) =
     (case http_url s of None \<Rightarrow> Inl [([], UrlParsing)] | Some u \<Rightarrow> Inr u)"
| "validate_url http_url v = Inl [([], UrlParsing)]"

text \<open>
  A \<open>float\<close> for an \<open>int\<close> field: it has to be finite, whole, and strictly between
  \<open>- 2 ^ 63\<close> and \<open>2 ^ 63\<close>.
\<close>

fun float_as_int :: "pyfloat \<Rightarrow> verr_type + int" where
  "float_as_int (Finite m e) =
     (if 0 \<le> e
      then (if - (2 ^ 63) < m * 2 ^ nat e \<and> m * 2 ^ nat e < 2 ^ 63
            then Inr (m * 2 ^ nat e) else Inl IntParsingSize)
      else if m mod 2 ^ nat (- e) \<noteq> 0 then Inl IntFromFloat
      else (if - (2 ^ 63) < m div 2 ^ nat (- e) \<and> m div 2 ^ nat (- e) < 2 ^ 63
            then Inr (m div 2 ^ nat (- e)) else Inl IntParsingSize))"
| "float_as_int (Infinity neg) = Inl FiniteNumber"
| "float_as_int NaN = Inl FiniteNumber"

text \<open>The value an \<open>int\<close> field takes from a JSON value, in lax mode.\<close>

fun lax_int :: "(string \<Rightarrow> int option) \<Rightarrow> val \<Rightarrow> verr_type + int" where
  "lax_int str_as_int (VInt n) = Inr n"
| "lax_int str_as_int (VBool b) = Inr (if b then 1 else 0)"
| "lax_int str_as_int (VFloat x) = float_as_int x"
| "lax_int str_as_int (VStr s) =
     (case str_as_int s of None \<Rightarrow> Inl IntParsing | Some n \<Rightarrow> Inr n)"
| "lax_int str_as_int v = Inl IntType"

text \<open>\<open>int\<close> with \<open>ge=1\<close>\<close>

definition validate_int_ge1 :: "(string \<Rightarrow> int option) \<Rightarrow> val \<Rightarrow> int validated" where
  "validate_int_ge1 str_as_int v =
     (case lax_int str_as_int v of
        Inl t \<Rightarrow> Inl [([], t)]
      | Inr n \<Rightarrow> if 1 \<le> n then Inr n else Inl [([], GreaterThanEqual 1)])"

fun validate_items :: "(val \<Rightarrow> 'a validated) \<Rightarrow> nat \<Rightarrow> val list \<Rightarrow> 'a list validated" where
  "validate_items f i [] = Inr []"
| "validate_items f i (x # xs) =
     ap (ap (Inr (#)) (at_loc (Idx i) (f x))) (validate_items f (Suc i) xs)"

fun validate_list :: "(val \<Rightarrow> 'a validated) \<Rightarrow> val \<Rightarrow> 'a list validated" where
  "validate_list f (VList xs) = validate_items f 0 xs"
| "validate_list f v = Inl [([], ListType)]"

text \<open>\<open>Field(...)\<close>: a required field.\<close>

definition required :: "(val \<Rightarrow> 'a validated) \<Rightarrow> pydict \<Rightarrow> string \<Rightarrow> 'a validated" where
  "required f obj k =
     (case map_of obj k of
        None \<Rightarrow> Inl [([Key k], Missing)]
      | Some v \<Rightarrow> at_loc (Key k) (f v))"

text \<open>\<open>Optional[T]\<close> with default \<open>None\<close>: absent or \<open>null\<close> is \<open>None\<close>.\<close>

definition optional :: "(val \<Rightarrow> 'a validated) \<Rightarrow> pydict \<Rightarrow> string \<Rightarrow> 'a option validated" where
  "optional f obj k =
     (case map_of obj k of
        None \<Rightarrow> Inr None
      | Some VNone \<Rightarrow> Inr None
      | Some v \<Rightarrow> at_loc (Key k) (ap (Inr Some) (f v)))"

text \<open>\<open>List[T]\<close> with \<open>default_factory=list\<close>: absent is the empty list.\<close>

definition list_field :: "(val \<Rightarrow> 'a validated) \<Rightarrow> pydict \<Rightarrow> string \<Rightarrow> 'a list validated" where
  "list_field f obj k =
     (case map_of obj k of
        None \<Rightarrow> Inr []
      | Some v \<Rightarrow> at_loc (Key k) (validate_list f v))"

fun validate_Certification :: "(string \<Rightarrow> string option) \<Rightarrow> val \<Rightarrow> Certification validated" where
  "validate_Certification http_url (VDict obj) =
     ap (ap (ap (Inr (\<lambda>a b c.
          \<lparr>Certification.name = a, Certification.pdf_url = b, Certification.standard = c\<rparr>))
       (required validate_str obj ''name''))
       (required (validate_url http_url) obj ''pdf_url''))
       (optional validate_str obj ''standard'')"
| "validate_Certification http_url v = Inl [([], ModelType)]"

fun validate_Product :: "(string \<Rightarrow> string option) \<Rightarrow> val \<Rightarrow> Product validated" where
  "validate_Product http_url (VDict obj) =
     ap (ap (ap (ap (ap (ap (ap (ap (Inr (\<lambda>a b c d e f g h.
          \<lparr>Product.slug = a, Product.name = b, Product.category = c,
           Product.description = d, Product.image_url = e, Product.spec_pdf_url = f,
           Product.certifications = g, Product.tags = h\<rparr>))
       (required validate_str obj ''slug''))
       (required validate_str obj ''name''))
       (required validate_str obj ''category''))
       (required validate_str obj ''description''))
       (required (validate_url http_url) obj ''image_url''))
       (required (validate_url http_url) obj ''spec_pdf_url''))
       (list_field (validate_Certification http_url) obj ''certifications''))
       (list_field validate_str obj ''tags'')"
| "validate_Product http_url v = Inl [([], ModelType)]"

fun validate_RFQ :: "(string \<Rightarrow> int option) \<Rightarrow> val \<Rightarrow> RFQ validated" where
  "validate_RFQ str_as_int (VDict obj) =
     ap (ap (ap (ap (ap (ap (ap (ap (ap (ap (ap (ap (Inr (\<lambda>a b c d e f g h i j k l.
          \<lparr>RFQ.company_name = a, RFQ.contact_name = b, RFQ.email = c, RFQ.phone = d,
           RFQ.project_name = e, RFQ.project_description = f, RFQ.specifications = g,
           RFQ.product_slugs = h, RFQ.quantity = i, RFQ.timeline = j, RFQ.location = k,
           RFQ.notes = l\<rparr>))
       (required validate_str obj ''company_name''))
       (required validate_str obj ''contact_name''))
       (required validate_str obj ''email''))
       (optional validate_str obj ''phone''))
       (optional validate_str obj ''project_name''))
       (optional validate_str obj ''project_description''))
       (optional validate_str obj ''specifications''))
       (list_field validate_str obj ''product_slugs''))
       (optional (validate_int_ge1 str_as_int) obj ''quantity''))
       (optional validate_str obj ''timeline''))
       (optional validate_str obj ''location''))
       (optional validate_str obj ''notes'')"
| "validate_RFQ str_as_int v = Inl [([], ModelType)]"


subsection \<open>Reading a validation result\<close>

definition errors :: "'a validated \<Rightarrow> verr list" where
  "errors r = (case r of Inl es \<Rightarrow> es | Inr v \<Rightarrow> [])"

definition accepted :: "'a validated \<Rightarrow> bool" where
  "accepted r = (case r of Inl es \<Rightarrow> False | Inr v \<Rightarrow> True)"

subsection \<open>The URL contract of a product, in the words of the specification\<close>

text \<open>
  \<open>image_url\<close>, \<open>spec_pdf_url\<close> and the \<open>pdf_url\<close> of every certification are
  well-formed URL strings. This predicate is written from the specification, to be
  compared with what \<open>validate_Product\<close> accepts.
\<close>

fun is_url :: "(string \<Rightarrow> string option) \<Rightarrow> val option \<Rightarrow> bool" where
  "is_url http_url (Some (VStr s)) = (http_url s \<noteq> None)"
| "is_url http_url v = False"

fun certification_url_ok :: "(string \<Rightarrow> string option) \<Rightarrow> val \<Rightarrow> bool" where
  "certification_url_ok http_url (VDict obj) = is_url http_url (map_of obj ''pdf_url'')"
| "certification_url_ok http_url v = False"

fun product_urls_ok :: "(string \<Rightarrow> string option) \<Rightarrow> val \<Rightarrow> bool" where
  "product_urls_ok http_url (VDict obj) =
     (is_url http_url (map_of obj ''image_url'')
      \<and> is_url http_url (map_of obj ''spec_pdf_url'')
      \<and> (case map_of obj ''certifications'' of
            None \<Rightarrow> True
          | Some (VList cs) \<Rightarrow> list_all (certification_url_ok http_url) cs
          | Some v \<Rightarrow> False))"
| "product_urls_ok http_url v = False"

section \<open>The write endpoints\<close>

text \<open>
  Statements in sequence over the handle: an exception raised by one statement ends the
  handler, with the writes made so far kept (there are no transactions).
\<close>

definition stmt :: "(exn + 'a) \<times> 's \<Rightarrow> (exn + unit) \<times> 's" where
  "stmt r = (case r of (Inl e, s) \<Rightarrow> (Inl e, s) | (Inr v, s) \<Rightarrow> (Inr (), s))"

definition then_do :: "(exn + unit) \<times> 's \<Rightarrow> ('s \<Rightarrow> (exn + 'b) \<times> 's) \<Rightarrow> (exn + 'b) \<times> 's" where
  "then_do r f = (case r of (Inl e, s) \<Rightarrow> (Inl e, s) | (Inr u, s) \<Rightarrow> f s)"

definition degree_sign :: string where
  "degree_sign = [CHR 0xC2, CHR 0xB0]"

definition dummy_pdf :: string where
  "dummy_pdf = ''https://www.w3.org/WAI/ER/tests/xhtml/testfiles/resources/pdf/dummy.pdf''"

text \<open>
  The demo records of \<open>/seed\<close>. The source builds them with the schema constructors
  from literals; the literals have the declared types and every URL is an absolute
  \<open>https\<close> URL with a path, so the records are written here as built.
\<close>

definition demo_product_1 :: Product where
  "demo_product_1 =
     \<lparr>Product.slug = ''cryogenic-solenoid-valve-csv200'',
      Product.name = ''Cryogenic Solenoid Valve CSV-200'',
      Product.category = ''Valves'',
      Product.description =
        ''High-reliability cryogenic solenoid valve for LNG applications down to -196''
        @ degree_sign @ ''C.'',
      Product.image_url =
        ''https://images.unsplash.com/photo-1581091215367-59ab6d7c1b5b?q=80&w=1200&auto=format&fit=crop'',
      Product.spec_pdf_url = dummy_pdf,
      Product.certifications =
        [\<lparr>Certification.name = ''ISO 9001:2015'', Certification.pdf_url = dummy_pdf,
          Certification.standard = None\<rparr>,
         \<lparr>Certification.name = ''API 6D'', Certification.pdf_url = dummy_pdf,
          Certification.standard = None\<rparr>],
      Product.tags = [''cryogenic'', ''valve'', ''LNG'', ''solenoid'']\<rparr>"

definition demo_product_2 :: Product where
  "demo_product_2 =
     \<lparr>Product.slug = ''downhole-pressure-sensor-dps50'',
      Product.name = ''Downhole Pressure Sensor DPS-50'',
      Product.category = ''Sensors'',
      Product.description =
        ''High-accuracy downhole pressure sensor rated up to 20k psi for drilling ops.'',
      Product.image_url =
        ''https://images.unsplash.com/photo-1606229365485-931b9043d692?q=80&w=1200&auto=format&fit=crop'',
      Product.spec_pdf_url = dummy_pdf,
      Product.certifications =
        [\<lparr>Certification.name = ''ISO 14001'', Certification.pdf_url = dummy_pdf,
          Certification.standard = None\<rparr>],
      Product.tags = [''sensor'', ''downhole'', ''pressure'']\<rparr>"

definition demo_solution_1 :: IndustrySolution where
  "demo_solution_1 =
     \<lparr>IndustrySolution.slug = ''upstream-drilling-automation'',
      IndustrySolution.title = ''Upstream Drilling Automation'',
      IndustrySolution.segment = ''upstream'',
      IndustrySolution.problem =
        ''Inconsistent pressure readings lead to NPT and safety risks.'',
      IndustrySolution.solution =
        ''Deploy DPS-50 sensors with real-time telemetry to improve decision-making and reduce NPT.'',
      IndustrySolution.related_products = [''downhole-pressure-sensor-dps50''],
      IndustrySolution.content = None\<rparr>"

definition demo_solution_2 :: IndustrySolution where
  "demo_solution_2 =
     \<lparr>IndustrySolution.slug = ''midstream-lng-cryogenic-handling'',
      IndustrySolution.title = ''Midstream LNG Cryogenic Handling'',
      IndustrySolution.segment = ''midstream'',
      IndustrySolution.problem =
        ''Valve leakage at cryogenic temperatures causes loss and hazards.'',
      IndustrySolution.solution =
        ''Implement CSV-200 with certified sealing for -196'' @ degree_sign @ ''C service.'',
      IndustrySolution.related_products = [''cryogenic-solenoid-valve-csv200''],
      IndustrySolution.content = None\<rparr>"

definition demo_case_study :: CaseStudy where
  "demo_case_study =
     \<lparr>CaseStudy.slug = ''lng-terminal-leak-reduction'',
      CaseStudy.title = ''LNG Terminal Leak Reduction'',
      CaseStudy.client = ''Nordic LNG Co.'',
      CaseStudy.location = Some ''Norway'',
      CaseStudy.challenge = ''Frequent valve seat leaks during peak winter operations.'',
      CaseStudy.solution = ''Retrofitted 120 units of CSV-200 with improved seal design.'',
      CaseStudy.outcome =
        ''Leak incidents reduced by 87% within first quarter; improved throughput by 6%.'',
      CaseStudy.products_used = [''cryogenic-solenoid-valve-csv200''],
      CaseStudy.image_url =
        Some ''https://images.unsplash.com/photo-1520607162513-77705c0f0d4a?q=80&w=1200&auto=format&fit=crop''\<rparr>"

text \<open>
  \<open>POST /seed\<close>. The three counts are taken first; each group of demo records is
  inserted only when the count of its collection was zero.
\<close>

definition seed_demo_data :: "database option \<Rightarrow> (exn + pydict) \<times> database option" where
  "seed_demo_data db =
     (case db of
        None \<Rightarrow> (Inl (HTTPException 500 ''Database not configured''), db)
      | Some d \<Rightarrow>
     (case count_documents d ''product'' [] of Inl e \<Rightarrow> (Inl e, db) | Inr prod_count \<Rightarrow>
     (case count_documents d ''casestudy'' [] of Inl e \<Rightarrow> (Inl e, db) | Inr case_count \<Rightarrow>
     (case count_documents d ''industrysolution'' [] of Inl e \<Rightarrow> (Inl e, db) | Inr sol_count \<Rightarrow>
        then_do
          (if prod_count = 0
           then then_do
                  (stmt (create_document db ''product'' (model_dump_Product demo_product_1)))
                  (\<lambda>db1. stmt (create_document db1 ''product'' (model_dump_Product demo_product_2)))
           else (Inr (), db))
        (\<lambda>db2. then_do
          (if sol_count = 0
           then then_do
                  (stmt (create_document db2 ''industrysolution''
                           (model_dump_IndustrySolution demo_solution_1)))
                  (\<lambda>db3. stmt (create_document db3 ''industrysolution''
                                  (model_dump_IndustrySolution demo_solution_2)))
           else (Inr (), db2))
        (\<lambda>db4. then_do
          (if case_count = 0
           then stmt (create_document db4 ''casestudy'' (model_dump_CaseStudy demo_case_study))
           else (Inr (), db4))
        (\<lambda>db5. (Inr [(''status'', VStr ''ok'')], db5))))))))"

text \<open>\<open>POST /rfq\<close>: the handler, called with a validated \<open>RFQ\<close>.\<close>

definition submit_rfq :: "database option \<Rightarrow> RFQ \<Rightarrow> (exn + pydict) \<times> database option" where
  "submit_rfq db payload =
     (case db of
        None \<Rightarrow> (Inl (HTTPException 500 ''Database not configured''), db)
      | Some d \<Rightarrow>
          (case create_document db ''rfq'' (model_dump_RFQ payload) of
             (Inl e, db') \<Rightarrow> (Inl e, db')
           | (Inr rfq_id, db') \<Rightarrow>
               (Inr [(''status'', VStr ''received''), (''id'', VStr rfq_id)], db')))"

text \<open>
  The route \<open>POST /rfq\<close> as the framework serves it: the parameter \<open>payload: RFQ\<close>
  makes the framework validate the request body against the schema first; when that
  fails the handler is not called and the errors are reported under \<open>body\<close>.
\<close>

definition post_rfq ::
  "(string \<Rightarrow> int option) \<Rightarrow> database option \<Rightarrow> val \<Rightarrow> (exn + pydict) \<times> database option" where
  "post_rfq str_as_int db body =
     (case validate_RFQ str_as_int body of
        Inl es \<Rightarrow> (Inl (RequestValidationError (map (\<lambda>e. (Key ''body'' # fst e, snd e)) es)), db)
      | Inr payload \<Rightarrow> submit_rfq db payload)"

section \<open>The diagnostics endpoint\<close>

definition check_mark :: string where
  "check_mark = [CHR 0xE2, CHR 0x9C, CHR 0x85]"

definition cross_mark :: string where
  "cross_mark = [CHR 0xE2, CHR 0x9D, CHR 0x8C]"

definition warning_sign :: string where
  "warning_sign = [CHR 0xE2, CHR 0x9A, CHR 0xA0, CHR 0xEF, CHR 0xB8, CHR 0x8F]"

text \<open>
  The response dict of \<open>/test\<close>; its keys are fixed. The key \<open>database\<close> is the
  field \<open>database_status\<close>, the name \<open>database\<close> being the type of the store.
\<close>

record diagnostics =
  backend :: string
  database_status :: string
  database_url :: "string option"
  database_name :: "string option"
  connection_status :: string
  collections :: "string list"

text \<open>\<open>os.getenv\<close> reads the process environment.\<close>

type_synonym environ = "string \<Rightarrow> string option"

text \<open>
  \<^verbatim>\<open>try: ... except Exception as e: ...\<close> over the response being filled in: the
  assignments made before the exception stay. Every exception of the model is an
  \<open>Exception\<close>.
\<close>

definition try_except ::
  "(exn + unit) \<times> 's \<Rightarrow> (exn \<Rightarrow> 's \<Rightarrow> (exn + unit) \<times> 's) \<Rightarrow> (exn + unit) \<times> 's" where
  "try_except r handler = (case r of (Inl e, s) \<Rightarrow> handler e s | (Inr u, s) \<Rightarrow> (Inr u, s))"

text \<open>The inner \<open>try\<close> block.\<close>

definition test_collections :: "database \<Rightarrow> diagnostics \<Rightarrow> (exn + unit) \<times> diagnostics" where
  "test_collections d response =
     (case list_collection_names d of
        Inl e \<Rightarrow> (Inl e, response)
      | Inr cs \<Rightarrow>
          (Inr (),
           response\<lparr>collections := take 10 cs,
                    database_status := check_mark @ '' Connected & Working'',
                    connection_status := ''Connected''\<rparr>))"

text \<open>
  The outer \<open>try\<close> block. \<open>str(e)[:80]\<close> is \<open>take 80\<close> of the message (for a
  message outside ASCII the source counts characters where \<open>take\<close> counts bytes).
\<close>

definition test_body ::
  "environ \<Rightarrow> database option \<Rightarrow> diagnostics \<Rightarrow> (exn + unit) \<times> diagnostics" where
  "test_body env db response =
     (case db of
        Some d \<Rightarrow>
          try_except
            (test_collections d
               (response\<lparr>
                  database_status := check_mark @ '' Available'',
                  database_url :=
                    Some (case env ''DATABASE_URL'' of
                            None \<Rightarrow> cross_mark @ '' Not Set''
                          | Some u \<Rightarrow> if u = [] then cross_mark @ '' Not Set''
                                      else check_mark @ '' Set''),
                  database_name :=
                    Some (case env ''DATABASE_NAME'' of
                            None \<Rightarrow> cross_mark @ '' Not Set''
                          | Some n \<Rightarrow> if n = [] then cross_mark @ '' Not Set'' else n)\<rparr>))
            (\<lambda>e r. (Inr (),
               r\<lparr>database_status :=
                    warning_sign @ ''  Connected but Error: '' @ take 80 (str_exn e)\<rparr>))
      | None \<Rightarrow>
          (Inr (),
           response\<lparr>database_status := warning_sign @ ''  Available but not initialized''\<rparr>))"

text \<open>\<open>GET /test\<close>\<close>

definition test_database :: "environ \<Rightarrow> database option \<Rightarrow> exn + diagnostics" where
  "test_database env db =
     (case try_except
             (test_body env db
                \<lparr>backend = check_mark @ '' Running'',
                 database_status = cross_mark @ '' Not Available'',
                 database_url = None,
                 database_name = None,
                 connection_status = ''Not Connected'',
                 collections = []\<rparr>)
             (\<lambda>e r. (Inr (),
                r\<lparr>database_status := cross_mark @ '' Error: '' @ take 80 (str_exn e)\<rparr>))
      of (Inl e, response) \<Rightarrow> Inl e
       | (Inr u, response) \<Rightarrow> Inr response)"

section \<open>Observations of the store\<close>

text \<open>
  The number of documents of a collection, as \<open>count_documents({})\<close> reports it on a
  store that answers; without a store there are no documents.
\<close>

definition document_count :: "database option \<Rightarrow> string \<Rightarrow> nat" where
  "document_count db cname =
     (case db of None \<Rightarrow> 0 | Some d \<Rightarrow> length (collection d cname))"

text \<open>The documents of a collection behind the handle; without a store there are none.\<close>

definition documents :: "database option \<Rightarrow> string \<Rightarrow> document list" where
  "documents db cname = (case db of None \<Rightarrow> [] | Some d \<Rightarrow> collection d cname)"

text \<open>The database that a successful \<open>insert_one\<close> leaves.\<close>

definition inserted :: "database \<Rightarrow> string \<Rightarrow> pydict \<Rightarrow> database" where
  "inserted d cname data =
     d\<lparr>colls := AList.update cname
          (collection d cname @ [\<lparr>doc_id = Oid (next_oid d), doc_fields = data\<rparr>])
          (colls d),
       next_oid := Suc (next_oid d)\<rparr>"

section \<open>Sample data\<close>

text \<open>
  A small store: two products, and three solutions, of which one has an array as its
  \<open>segment\<close>.
\<close>

definition sample_db :: database where
  "sample_db =
     \<lparr>colls =
        [(''product'',
            [\<lparr>doc_id = Oid 1, doc_fields = [(''slug'', VStr ''valve''), (''name'', VStr ''Old'')]\<rparr>,
             \<lparr>doc_id = Oid 2, doc_fields = [(''slug'', VStr ''pump''), (''name'', VStr ''P'')]\<rparr>]),
         (''industrysolution'',
            [\<lparr>doc_id = Oid 3, doc_fields = [(''slug'', VStr ''a''), (''segment'', VStr ''upstream'')]\<rparr>,
             \<lparr>doc_id = Oid 4, doc_fields = [(''slug'', VStr ''b''), (''segment'', VStr ''Upstream'')]\<rparr>,
             \<lparr>doc_id = Oid 5,
              doc_fields = [(''slug'', VStr ''c''),
                            (''segment'', VList [VStr ''upstream'', VStr ''midstream''])]\<rparr>])],
      next_oid = 6,
      fault = None\<rparr>"

text \<open>A store with nothing in it.\<close>

definition empty_db :: database where
  "empty_db = \<lparr>colls = [], next_oid = 0, fault = None\<rparr>"

text \<open>
  A stand-in for the URL parser: a string with one of the two schemes of an
  \<open>HttpUrl\<close> is taken as it is. A stand-in for the reader of numeric strings: it
  knows one string.
\<close>

definition sample_http_url :: "string \<Rightarrow> string option" where
  "sample_http_url s =
     (if take 7 s = ''http://'' \<or> take 8 s = ''https://'' then Some s else None)"

definition sample_str_as_int :: "string \<Rightarrow> int option" where
  "sample_str_as_int s = (if s = ''5'' then Some 5 else None)"

definition sample_product_body :: val where
  "sample_product_body =
     VDict [(''slug'', VStr ''valve''), (''name'', VStr ''New''), (''category'', VStr ''Valves''),
            (''description'', VStr ''d''), (''image_url'', VStr ''https://x.io/a.png''),
            (''spec_pdf_url'', VStr ''https://x.io/a.pdf'')]"

definition sample_product :: Product where
  "sample_product =
     \<lparr>Product.slug = ''valve'', Product.name = ''New'', Product.category = ''Valves'',
      Product.description = ''d'', Product.image_url = ''https://x.io/a.png'',
      Product.spec_pdf_url = ''https://x.io/a.pdf'', Product.certifications = [],
      Product.tags = []\<rparr>"



definition sample_rfq_body :: pydict where
  "sample_rfq_body =
     [(''company_name'', VStr ''Acme''), (''contact_name'', VStr ''J. Doe''),
      (''email'', VStr ''j@acme.com''), (''product_slugs'', VList [VStr ''csv-200''])]"

section \<open>Properties of the read endpoints\<close>

declare validate_RFQ.simps [simp del] validate_Product.simps [simp del]
  validate_Certification.simps [simp del]

lemma raise_fault_ok: "fault d = None \<Longrightarrow> raise_fault d v = Inr v"
  by (simp add: raise_fault_def)

lemma raise_fault_fails: "fault d = Some m \<Longrightarrow> raise_fault d v = Inl (PyError m)"
  by (simp add: raise_fault_def)

lemma matches_empty: "matches [] doc"
  by (simp add: matches_def)

lemma matches_single: "matches [(k, s)] doc \<longleftrightarrow> field_matches (map_of (doc_fields doc) k) s"
  by (simp add: matches_def)

text \<open>
  C3: with the handle absent, \<open>GET /products\<close> returns the empty list with status 200,
  and \<open>GET /products/{slug}\<close> raises the 500 exception, for every slug; its status is
  not 404.
\<close>

theorem unconfigured_products:
  "list_products None = Inr []
   \<and> status_code (list_products None) = 200
   \<and> get_product None s = Inl (HTTPException 500 ''Database not configured'')
   \<and> status_code (get_product None s) = 500
   \<and> status_code (get_product None s) \<noteq> 404"
  by (simp add: list_products_def get_product_def)

lemma matches_single_fun:
  "matches [(k, s)] = (\<lambda>doc. field_matches (map_of (doc_fields doc) k) s)"
  by (rule ext) (simp add: matches_def)

lemma matches_empty_fun: "matches [] = (\<lambda>doc. True)"
  by (rule ext) (simp add: matches_def)

text \<open>
  C6: when no document of the product collection matches the slug (none has it as its
  \<open>slug\<close>, or in an array that is its \<open>slug\<close>), \<open>GET /products/{slug}\<close> on a store
  that answers raises the 404 exception; whether or not the store answers, it does not
  return a document.
\<close>

theorem absent_slug_not_found:
  assumes "\<forall>doc \<in> set (collection d ''product'').
             \<not> field_matches (map_of (doc_fields doc) ''slug'') s"
  shows "(fault d = None \<longrightarrow> get_product (Some d) s = Inl (HTTPException 404 ''Not found''))
         \<and> (\<forall>doc. get_product (Some d) s \<noteq> Inr doc)"
proof -
  from assms have none: "List.find (matches [(''slug'', s)]) (collection d ''product'') = None"
    by (simp add: find_None_iff matches_single)
  show ?thesis
    by (cases "fault d") (simp_all add: get_product_def find_one_def raise_fault_def none)
qed

theorem absent_slug_not_found_witness:
  "get_product (Some sample_db) ''gasket'' = Inl (HTTPException 404 ''Not found'')"
proof -
  have "\<forall>doc \<in> set (collection sample_db ''product'').
          \<not> field_matches (map_of (doc_fields doc) ''slug'') ''gasket''"
    by (simp add: sample_db_def collection_def)
  from absent_slug_not_found [OF this] show ?thesis
    by (simp add: sample_db_def)
qed

lemma sample_solutions:
  "collection sample_db ''industrysolution'' =
     [\<lparr>doc_id = Oid 3, doc_fields = [(''slug'', VStr ''a''), (''segment'', VStr ''upstream'')]\<rparr>,
      \<lparr>doc_id = Oid 4, doc_fields = [(''slug'', VStr ''b''), (''segment'', VStr ''Upstream'')]\<rparr>,
      \<lparr>doc_id = Oid 5,
       doc_fields = [(''slug'', VStr ''c''),
                     (''segment'', VList [VStr ''upstream'', VStr ''midstream''])]\<rparr>]"
  by (simp add: sample_db_def collection_def)

lemma sample_db_answers: "fault sample_db = None"
  by (simp add: sample_db_def)

text \<open>
  C7, as stated: for every value of \<open>segment\<close> the response is the documents whose
  \<open>segment\<close> field equals it. This fails in two ways. For the empty string the
  response holds every document, among them one whose \<open>segment\<close> is \<open>upstream\<close>. For
  \<open>midstream\<close> the response holds a document whose \<open>segment\<close> is not that string but
  an array that contains it.
\<close>

theorem segment_filter_counterexample:
  "list_solutions (Some sample_db) (Some '''') =
     Inr [\<lparr>doc_id = IdStr (str_ObjectId 3),
           doc_fields = [(''slug'', VStr ''a''), (''segment'', VStr ''upstream'')]\<rparr>,
          \<lparr>doc_id = IdStr (str_ObjectId 4),
           doc_fields = [(''slug'', VStr ''b''), (''segment'', VStr ''Upstream'')]\<rparr>,
          \<lparr>doc_id = IdStr (str_ObjectId 5),
           doc_fields = [(''slug'', VStr ''c''),
                         (''segment'', VList [VStr ''upstream'', VStr ''midstream''])]\<rparr>]
   \<and> map_of [(''slug'', VStr ''a''), (''segment'', VStr ''upstream'')] ''segment''
        \<noteq> Some (VStr '''')
   \<and> list_solutions (Some sample_db) (Some ''midstream'') =
     Inr [\<lparr>doc_id = IdStr (str_ObjectId 5),
           doc_fields = [(''slug'', VStr ''c''),
                         (''segment'', VList [VStr ''upstream'', VStr ''midstream''])]\<rparr>]
   \<and> map_of [(''slug'', VStr ''c''), (''segment'', VList [VStr ''upstream'', VStr ''midstream''])]
          ''segment''
        \<noteq> Some (VStr ''midstream'')"
  by (simp add: list_solutions_def find_docs_def raise_fault_def sample_db_answers
        matches_empty_fun matches_single_fun sample_solutions stringify_id_def)

lemma list_solutions_eq:
  "list_solutions db (Some s) =
     (case db of
        None \<Rightarrow> Inr []
      | Some d \<Rightarrow>
          raise_fault d
            (map stringify_id
               (filter (\<lambda>doc. s = [] \<or> field_matches (map_of (doc_fields doc) ''segment'') s)
                  (collection d ''industrysolution''))))"
  "list_solutions db None =
     (case db of
        None \<Rightarrow> Inr []
      | Some d \<Rightarrow> raise_fault d (map stringify_id (collection d ''industrysolution'')))"
  by (simp_all add: list_solutions_def find_docs_def raise_fault_def matches_single_fun
        matches_empty_fun split: option.splits)

text \<open>
  C7, amended: for every non-empty value of \<open>segment\<close>, what \<open>GET /solutions\<close>
  responds with is exactly the documents of the industrysolution collection whose
  \<open>segment\<close> field is that string (equality of strings, so no partial or
  case-insensitive match) or is an array with that string among its elements, in stored
  order; without the parameter it is all documents. There is a response whenever the
  handle is absent (the empty list) or the store answers.
\<close>

theorem segment_filter_exact:
  "(s \<noteq> [] \<longrightarrow>
      (\<forall>docs. list_solutions db (Some s) = Inr docs \<longrightarrow>
         docs = map stringify_id
                  (filter (\<lambda>doc. field_matches (map_of (doc_fields doc) ''segment'') s)
                     (documents db ''industrysolution''))))
   \<and> (\<forall>docs. list_solutions db None = Inr docs \<longrightarrow>
         docs = map stringify_id (documents db ''industrysolution''))
   \<and> ((\<forall>d. db = Some d \<longrightarrow> fault d = None) \<longrightarrow>
         (\<exists>docs. list_solutions db (Some s) = Inr docs)
         \<and> (\<exists>docs. list_solutions db None = Inr docs))"
  by (auto simp add: list_solutions_eq raise_fault_def documents_def split: option.splits)

theorem segment_filter_exact_witness:
  "list_solutions (Some sample_db) (Some ''upstream'') =
     Inr [\<lparr>doc_id = IdStr (str_ObjectId 3),
           doc_fields = [(''slug'', VStr ''a''), (''segment'', VStr ''upstream'')]\<rparr>,
          \<lparr>doc_id = IdStr (str_ObjectId 5),
           doc_fields = [(''slug'', VStr ''c''),
                         (''segment'', VList [VStr ''upstream'', VStr ''midstream''])]\<rparr>]"
proof -
  have "\<forall>d. Some sample_db = Some d \<longrightarrow> fault d = None"
    by (simp add: sample_db_answers)
  with segment_filter_exact [of "''upstream''" "Some sample_db"]
  obtain docs where r: "list_solutions (Some sample_db) (Some ''upstream'') = Inr docs"
    by blast
  with segment_filter_exact [of "''upstream''" "Some sample_db"]
  have "docs = map stringify_id
                  (filter (\<lambda>doc. field_matches (map_of (doc_fields doc) ''segment'') ''upstream'')
                     (documents (Some sample_db) ''industrysolution''))"
    by blast
  with r show ?thesis
    by (simp add: documents_def sample_solutions stringify_id_def)
qed

text \<open>
  C10: the empty string as \<open>segment\<close> is treated as no parameter at all: the filter is
  dropped and, on a store that answers, all documents of the industrysolution
  collection are returned.
\<close>

theorem empty_segment_drops_filter:
  "list_solutions db (Some '''') = list_solutions db None
   \<and> (db = Some d \<and> fault d = None \<longrightarrow>
        list_solutions db (Some '''') =
          Inr (map stringify_id (collection d ''industrysolution'')))"
  by (cases db) (simp_all add: list_solutions_def find_docs_def raise_fault_def matches_empty_fun)

theorem empty_segment_drops_filter_witness:
  "list_solutions (Some sample_db) (Some '''') =
     Inr (map stringify_id (collection sample_db ''industrysolution''))
   \<and> length (collection sample_db ''industrysolution'') = 3"
proof -
  have ok: "fault sample_db = None" by (simp add: sample_db_def)
  have "list_solutions (Some sample_db) (Some '''') =
          Inr (map stringify_id (collection sample_db ''industrysolution''))"
    using empty_segment_drops_filter [of "Some sample_db" sample_db, THEN conjunct2] ok
    by blast
  moreover have "length (collection sample_db ''industrysolution'') = 3"
    by (simp add: sample_db_def collection_def)
  ultimately show ?thesis by blast
qed

section \<open>Properties of the diagnostics endpoint\<close>

text \<open>
  C8: \<open>GET /test\<close> returns its response for every environment and every state of the
  handle: absent, answering, or raising on \<open>list_collection_names\<close>. In the last case
  the exception is caught and its message, cut to 80 characters, is put into the
  \<open>database\<close> text of the response.
\<close>

theorem test_never_raises:
  "\<exists>r. test_database env db = Inr r
       \<and> backend r = check_mark @ '' Running''
       \<and> (\<forall>d m. db = Some d \<and> fault d = Some m \<longrightarrow>
             database_status r = warning_sign @ ''  Connected but Error: '' @ take 80 m)"
proof (cases db)
  case None
  then show ?thesis by (simp add: test_database_def test_body_def try_except_def)
next
  case (Some d)
  then show ?thesis
    by (cases "fault d")
       (simp_all add: test_database_def test_body_def try_except_def test_collections_def
          list_collection_names_def raise_fault_def)
qed

theorem test_never_raises_witness:
  "\<exists>r. test_database (\<lambda>k. None) (Some (empty_db\<lparr>fault := Some ''timed out''\<rparr>)) = Inr r
       \<and> database_status r = warning_sign @ ''  Connected but Error: timed out''"
  using test_never_raises [of "\<lambda>k. None" "Some (empty_db\<lparr>fault := Some ''timed out''\<rparr>)"]
  by (auto simp add: empty_db_def)

section \<open>Properties of validation\<close>

lemma accepted_simps [simp]: "accepted (Inr v)" "\<not> accepted (Inl es)"
  by (simp_all add: accepted_def)

lemma errors_simps [simp]: "errors (Inr v) = []" "errors (Inl es) = es"
  by (simp_all add: errors_def)

lemma accepted_ap: "accepted (ap f x) \<longleftrightarrow> accepted f \<and> accepted x"
  by (cases f; cases x) simp_all

lemma errors_ap: "errors (ap f x) = errors f @ errors x"
  by (cases f; cases x) simp_all

lemma accepted_at_loc: "accepted (at_loc k r) = accepted r"
  by (cases r) (simp_all add: at_loc_def)

lemma errors_at_loc: "errors (at_loc k r) = map (\<lambda>e. (k # fst e, snd e)) (errors r)"
  by (cases r) (simp_all add: at_loc_def)

lemma rejected_errors: "\<not> accepted r \<Longrightarrow> r = Inl (errors r)"
  by (cases r) simp_all

lemma accepted_obtain: "accepted r \<Longrightarrow> \<exists>v. r = Inr v"
  by (cases r) simp_all

lemma required_missing:
  "map_of obj k = None \<Longrightarrow> required f obj k = Inl [([Key k], Missing)]"
  by (simp add: required_def)

lemma accepted_RFQ:
  "accepted (validate_RFQ S (VDict obj)) \<longleftrightarrow>
     accepted (required validate_str obj ''company_name'')
   \<and> accepted (required validate_str obj ''contact_name'')
   \<and> accepted (required validate_str obj ''email'')
   \<and> accepted (optional validate_str obj ''phone'')
   \<and> accepted (optional validate_str obj ''project_name'')
   \<and> accepted (optional validate_str obj ''project_description'')
   \<and> accepted (optional validate_str obj ''specifications'')
   \<and> accepted (list_field validate_str obj ''product_slugs'')
   \<and> accepted (optional (validate_int_ge1 S) obj ''quantity'')
   \<and> accepted (optional validate_str obj ''timeline'')
   \<and> accepted (optional validate_str obj ''location'')
   \<and> accepted (optional validate_str obj ''notes'')"
  by (simp add: validate_RFQ.simps accepted_ap)

lemma errors_RFQ:
  "errors (validate_RFQ S (VDict obj)) =
     errors (required validate_str obj ''company_name'')
   @ errors (required validate_str obj ''contact_name'')
   @ errors (required validate_str obj ''email'')
   @ errors (optional validate_str obj ''phone'')
   @ errors (optional validate_str obj ''project_name'')
   @ errors (optional validate_str obj ''project_description'')
   @ errors (optional validate_str obj ''specifications'')
   @ errors (list_field validate_str obj ''product_slugs'')
   @ errors (optional (validate_int_ge1 S) obj ''quantity'')
   @ errors (optional validate_str obj ''timeline'')
   @ errors (optional validate_str obj ''location'')
   @ errors (optional validate_str obj ''notes'')"
  by (simp add: validate_RFQ.simps errors_ap)

text \<open>
  C4: a request body for \<open>POST /rfq\<close> that is an object without the key
  \<open>company_name\<close> is answered with the validation error (status 422, a client error)
  that names \<open>body.company_name\<close> as missing, and the handle is returned as it was:
  nothing is written.
\<close>

theorem rfq_missing_company_name:
  assumes "map_of obj ''company_name'' = None"
  shows "\<exists>es. post_rfq S db (VDict obj) = (Inl (RequestValidationError es), db)
              \<and> ([Key ''body'', Key ''company_name''], Missing) \<in> set es
              \<and> is_client_error (status_code (fst (post_rfq S db (VDict obj))))"
proof -
  let ?r = "validate_RFQ S (VDict obj)"
  have miss: "required validate_str obj ''company_name'' = Inl [([Key ''company_name''], Missing)]"
    using assms by (rule required_missing)
  have "\<not> accepted ?r"
    unfolding accepted_RFQ by (simp add: miss)
  then have r: "?r = Inl (errors ?r)"
    by (rule rejected_errors)
  have mem: "([Key ''company_name''], Missing) \<in> set (errors ?r)"
    unfolding errors_RFQ by (simp add: miss)
  have post: "post_rfq S db (VDict obj) =
      (Inl (RequestValidationError (map (\<lambda>e. (Key ''body'' # fst e, snd e)) (errors ?r))), db)"
    unfolding post_rfq_def by (subst r) simp
  from mem have "([Key ''body'', Key ''company_name''], Missing)
      \<in> set (map (\<lambda>e. (Key ''body'' # fst e, snd e)) (errors ?r))"
    by force
  with post show ?thesis
    by (simp add: is_client_error_def)
qed

theorem rfq_missing_company_name_witness:
  "\<exists>es. post_rfq sample_str_as_int (Some empty_db) (VDict [(''contact_name'', VStr ''J. Doe''), (''email'', VStr ''j@acme.com'')])
            = (Inl (RequestValidationError es), Some empty_db)
         \<and> ([Key ''body'', Key ''company_name''], Missing) \<in> set es"
  using rfq_missing_company_name
    [of "[(''contact_name'', VStr ''J. Doe''), (''email'', VStr ''j@acme.com'')]"
        sample_str_as_int "Some empty_db"]
  by auto

lemma lax_int_VInt: "lax_int S (VInt n) = Inr n"
  by simp

lemma accepted_validate_int_ge1:
  "accepted (validate_int_ge1 S v) \<longleftrightarrow> (\<exists>n. lax_int S v = Inr n \<and> 1 \<le> n)"
  by (cases "lax_int S v") (simp_all add: validate_int_ge1_def)

lemma accepted_optional:
  "accepted (optional f obj k) \<longleftrightarrow>
     (case map_of obj k of None \<Rightarrow> True | Some v \<Rightarrow> v = VNone \<or> accepted (f v))"
  by (cases "map_of obj k")
     (simp_all add: optional_def accepted_at_loc accepted_ap split: val.splits)

lemma optional_updated:
  "accepted (optional f (AList.update k v obj) k) \<longleftrightarrow> v = VNone \<or> accepted (f v)"
  by (simp add: accepted_optional update_conv')

lemma errors_quantity_0:
  "errors (optional (validate_int_ge1 S) (AList.update ''quantity'' (VInt 0) obj) ''quantity'')
     = [([Key ''quantity''], GreaterThanEqual 1)]"
  by (simp add: optional_def update_conv' at_loc_def validate_int_ge1_def)

lemma optional_absent: "map_of obj k = None \<Longrightarrow> optional f obj k = Inr None"
  by (simp add: optional_def)

lemma required_update: "k \<noteq> k' \<Longrightarrow> required f (AList.update k' v obj) k = required f obj k"
  by (simp add: required_def update_conv')

lemma optional_update: "k \<noteq> k' \<Longrightarrow> optional f (AList.update k' v obj) k = optional f obj k"
  by (simp add: optional_def update_conv')

lemma list_field_update: "k \<noteq> k' \<Longrightarrow> list_field f (AList.update k' v obj) k = list_field f obj k"
  by (simp add: list_field_def update_conv')

lemma required_delete: "k \<noteq> k' \<Longrightarrow> required f (AList.delete k' obj) k = required f obj k"
  by (simp add: required_def delete_conv')

lemma optional_delete: "k \<noteq> k' \<Longrightarrow> optional f (AList.delete k' obj) k = optional f obj k"
  by (simp add: optional_def delete_conv')

lemma list_field_delete: "k \<noteq> k' \<Longrightarrow> list_field f (AList.delete k' obj) k = list_field f obj k"
  by (simp add: list_field_def delete_conv')

lemma optional_deleted: "optional f (AList.delete k obj) k = Inr None"
  by (simp add: optional_def delete_conv')

lemmas other_field = required_update optional_update list_field_update
  required_delete optional_delete list_field_delete

lemma accepted_RFQ_update_quantity:
  "accepted (validate_RFQ S (VDict (AList.update ''quantity'' v obj))) \<longleftrightarrow>
     accepted (validate_RFQ S (VDict (AList.delete ''quantity'' obj)))
     \<and> (v = VNone \<or> (\<exists>n. lax_int S v = Inr n \<and> 1 \<le> n))"
  unfolding accepted_RFQ
  by (simp add: other_field optional_updated optional_deleted accepted_validate_int_ge1)
     blast

lemma accepted_RFQ_delete_quantity:
  "accepted (validate_RFQ S (VDict obj)) \<Longrightarrow>
     accepted (validate_RFQ S (VDict (AList.delete ''quantity'' obj)))"
  unfolding accepted_RFQ
  by (simp add: other_field optional_deleted)

lemma errors_RFQ_quantity_0:
  "([Key ''quantity''], GreaterThanEqual 1)
     \<in> set (errors (validate_RFQ S (VDict (AList.update ''quantity'' (VInt 0) obj))))"
  unfolding errors_RFQ by (simp add: errors_quantity_0)

lemma sample_rfq_accepted: "accepted (validate_RFQ S (VDict sample_rfq_body))"
  by (simp add: accepted_RFQ sample_rfq_body_def required_def optional_def list_field_def
        at_loc_def)

lemma sample_rfq_no_quantity: "AList.delete ''quantity'' sample_rfq_body = sample_rfq_body"
  by (simp add: sample_rfq_body_def AList.delete_eq)

text \<open>
  C5, as stated: a quantity is accepted exactly when it is an integer \<open>n\<close> with
  \<open>1 \<le> n\<close>. This fails: the body with \<open>quantity\<close> set to \<open>true\<close> is accepted, and so
  is the body with \<open>quantity\<close> set to the float \<open>1.0\<close>; neither value is an integer.
\<close>

theorem rfq_quantity_non_integer_counterexample:
  "accepted (validate_RFQ sample_str_as_int
              (VDict (AList.update ''quantity'' (VBool True) sample_rfq_body)))
   \<and> accepted (validate_RFQ sample_str_as_int
              (VDict (AList.update ''quantity'' (VFloat (Finite 1 0)) sample_rfq_body)))
   \<and> VBool True \<noteq> VInt 1 \<and> VFloat (Finite 1 0) \<noteq> VInt 1"
  by (simp add: accepted_RFQ_update_quantity sample_rfq_no_quantity sample_rfq_accepted)

text \<open>
  C5, amended: a body with \<open>quantity\<close> absent is accepted (taking \<open>quantity\<close> out of an
  accepted body leaves it accepted); a body with \<open>quantity\<close> set to a value \<open>v\<close> is
  accepted exactly when the same body without \<open>quantity\<close> is accepted and \<open>v\<close> is
  \<open>null\<close> or is a value that the validation library reads, in its lax mode, as an
  integer \<open>n\<close> with \<open>1 \<le> n\<close>: an integer is read as itself, so that the integer \<open>n\<close>
  is accepted exactly when \<open>1 \<le> n\<close>; \<open>true\<close> is read as 1 and \<open>false\<close> as 0; a
  float is read when it is finite, whole and within 64 bits; a string is read when it is
  numeric. With \<open>quantity = 0\<close> validation reports the bound at \<open>quantity\<close> and
  \<open>POST /rfq\<close> answers with the validation error.
\<close>

theorem rfq_quantity_ge_1:
  "(accepted (validate_RFQ S (VDict (AList.update ''quantity'' v obj))) \<longleftrightarrow>
      accepted (validate_RFQ S (VDict (AList.delete ''quantity'' obj)))
      \<and> (v = VNone \<or> (\<exists>n. lax_int S v = Inr n \<and> 1 \<le> n)))
   \<and> (accepted (validate_RFQ S (VDict (AList.update ''quantity'' (VInt n) obj))) \<longleftrightarrow>
      accepted (validate_RFQ S (VDict (AList.delete ''quantity'' obj))) \<and> 1 \<le> n)
   \<and> lax_int S (VInt n) = Inr n
   \<and> lax_int S (VBool b) = Inr (if b then 1 else 0)
   \<and> lax_int S (VFloat x) = float_as_int x
   \<and> (\<forall>t. lax_int S (VStr t) = Inr n \<longleftrightarrow> S t = Some n)
   \<and> (accepted (validate_RFQ S (VDict obj)) \<longrightarrow>
        accepted (validate_RFQ S (VDict (AList.delete ''quantity'' obj))))
   \<and> ([Key ''quantity''], GreaterThanEqual 1)
        \<in> set (errors (validate_RFQ S (VDict (AList.update ''quantity'' (VInt 0) obj))))
   \<and> (\<exists>es. post_rfq S db (VDict (AList.update ''quantity'' (VInt 0) obj)) =
              (Inl (RequestValidationError es), db))"
proof -
  let ?r = "validate_RFQ S (VDict (AList.update ''quantity'' (VInt 0) obj))"
  have "\<not> accepted ?r"
    by (simp add: accepted_RFQ_update_quantity)
  then have r: "?r = Inl (errors ?r)"
    by (rule rejected_errors)
  have post: "\<exists>es. post_rfq S db (VDict (AList.update ''quantity'' (VInt 0) obj)) =
              (Inl (RequestValidationError es), db)"
    unfolding post_rfq_def by (subst r) simp
  have int: "accepted (validate_RFQ S (VDict (AList.update ''quantity'' (VInt n) obj))) \<longleftrightarrow>
      accepted (validate_RFQ S (VDict (AList.delete ''quantity'' obj))) \<and> 1 \<le> n"
    by (simp add: accepted_RFQ_update_quantity)
  have str: "\<forall>t. lax_int S (VStr t) = Inr n \<longleftrightarrow> S t = Some n"
    by (simp split: option.splits)
  show ?thesis
    using accepted_RFQ_update_quantity [of S v obj] int str post
      accepted_RFQ_delete_quantity [of S obj] errors_RFQ_quantity_0 [of S obj]
    by simp
qed

theorem rfq_quantity_ge_1_witness:
  "accepted (validate_RFQ sample_str_as_int (VDict sample_rfq_body))
   \<and> accepted (validate_RFQ sample_str_as_int (VDict (AList.delete ''quantity'' sample_rfq_body)))
   \<and> accepted (validate_RFQ sample_str_as_int
                 (VDict (AList.update ''quantity'' (VInt 1) sample_rfq_body)))
   \<and> \<not> accepted (validate_RFQ sample_str_as_int
                 (VDict (AList.update ''quantity'' (VInt 0) sample_rfq_body)))
   \<and> accepted (validate_RFQ sample_str_as_int
                 (VDict (AList.update ''quantity'' (VStr ''5'') sample_rfq_body)))
   \<and> \<not> accepted (validate_RFQ sample_str_as_int
                 (VDict (AList.update ''quantity'' (VFloat (Finite 3 (- 1))) sample_rfq_body)))"
proof -
  note t = rfq_quantity_ge_1 [of sample_str_as_int _ sample_rfq_body]
  have a: "accepted (validate_RFQ sample_str_as_int (VDict sample_rfq_body))"
    by (rule sample_rfq_accepted)
  with t [of VNone 1 True NaN None] have d:
    "accepted (validate_RFQ sample_str_as_int (VDict (AList.delete ''quantity'' sample_rfq_body)))"
    by blast
  from t [of VNone 1 True NaN None] d have one:
    "accepted (validate_RFQ sample_str_as_int
                 (VDict (AList.update ''quantity'' (VInt 1) sample_rfq_body)))"
    by simp
  from t [of VNone 0 True NaN None] have zero:
    "\<not> accepted (validate_RFQ sample_str_as_int
                 (VDict (AList.update ''quantity'' (VInt 0) sample_rfq_body)))"
    by simp
  from t [of "VStr ''5''" 5 True NaN None] d have five:
    "accepted (validate_RFQ sample_str_as_int
                 (VDict (AList.update ''quantity'' (VStr ''5'') sample_rfq_body)))"
    by (simp add: sample_str_as_int_def)
  from t [of "VFloat (Finite 3 (- 1))" 1 True NaN None] have frac:
    "\<not> accepted (validate_RFQ sample_str_as_int
                 (VDict (AList.update ''quantity'' (VFloat (Finite 3 (- 1))) sample_rfq_body)))"
    by simp
  from a d one zero five frac show ?thesis by blast
qed

lemma accepted_validate_url: "accepted (validate_url U v) \<longleftrightarrow> is_url U (Some v)"
  by (cases v) (auto split: option.splits)

lemma accepted_required_url: "accepted (required (validate_url U) obj k) \<longleftrightarrow> is_url U (map_of obj k)"
  by (cases "map_of obj k") (simp_all add: required_def accepted_at_loc accepted_validate_url)

lemma accepted_validate_items:
  "accepted (validate_items f i xs) \<longleftrightarrow> list_all (\<lambda>x. accepted (f x)) xs"
  by (induction xs arbitrary: i) (simp_all add: accepted_ap accepted_at_loc)

lemma accepted_validate_list:
  "accepted (validate_list f v) \<longleftrightarrow> (case v of VList xs \<Rightarrow> list_all (\<lambda>x. accepted (f x)) xs | _ \<Rightarrow> False)"
  by (cases v) (simp_all add: accepted_validate_items)

lemma accepted_list_field:
  "accepted (list_field f obj k) \<longleftrightarrow>
     (case map_of obj k of
        None \<Rightarrow> True
      | Some (VList xs) \<Rightarrow> list_all (\<lambda>x. accepted (f x)) xs
      | Some v \<Rightarrow> False)"
  by (cases "map_of obj k")
     (simp_all add: list_field_def accepted_at_loc accepted_validate_list split: val.splits)

lemma accepted_Certification:
  "accepted (validate_Certification U c) \<Longrightarrow> certification_url_ok U c"
  by (cases c) (simp_all add: validate_Certification.simps accepted_ap accepted_required_url)

lemma accepted_Product:
  "accepted (validate_Product U (VDict obj)) \<longleftrightarrow>
     accepted (required validate_str obj ''slug'')
   \<and> accepted (required validate_str obj ''name'')
   \<and> accepted (required validate_str obj ''category'')
   \<and> accepted (required validate_str obj ''description'')
   \<and> accepted (required (validate_url U) obj ''image_url'')
   \<and> accepted (required (validate_url U) obj ''spec_pdf_url'')
   \<and> accepted (list_field (validate_Certification U) obj ''certifications'')
   \<and> accepted (list_field validate_str obj ''tags'')"
  by (simp add: validate_Product.simps accepted_ap)

lemma errors_Product:
  "errors (validate_Product U (VDict obj)) =
     errors (required validate_str obj ''slug'')
   @ errors (required validate_str obj ''name'')
   @ errors (required validate_str obj ''category'')
   @ errors (required validate_str obj ''description'')
   @ errors (required (validate_url U) obj ''image_url'')
   @ errors (required (validate_url U) obj ''spec_pdf_url'')
   @ errors (list_field (validate_Certification U) obj ''certifications'')
   @ errors (list_field validate_str obj ''tags'')"
  by (simp add: validate_Product.simps errors_ap)

lemma accepted_Product_urls:
  assumes "accepted (validate_Product U v)"
  shows "product_urls_ok U v"
proof (cases v)
  case (VDict obj)
  from assms have a: "is_url U (map_of obj ''image_url'')" "is_url U (map_of obj ''spec_pdf_url'')"
    and c: "accepted (list_field (validate_Certification U) obj ''certifications'')"
    unfolding VDict accepted_Product by (simp_all add: accepted_required_url)
  from c have "case map_of obj ''certifications'' of
            None \<Rightarrow> True
          | Some (VList cs) \<Rightarrow> list_all (certification_url_ok U) cs
          | Some v \<Rightarrow> False"
    unfolding accepted_list_field
    by (auto split: option.splits val.splits simp: list_all_iff dest: accepted_Certification)
  with a show ?thesis by (simp add: VDict)
qed (use assms in \<open>simp_all add: validate_Product.simps\<close>)

lemma errors_required_url:
  "map_of obj k = Some (VStr s) \<Longrightarrow> U s = None \<Longrightarrow>
     errors (required (validate_url U) obj k) = [([Key k], UrlParsing)]"
  by (simp add: required_def at_loc_def)

lemma errors_validate_items:
  "i < length xs \<Longrightarrow> e \<in> set (errors (f (xs ! i))) \<Longrightarrow>
     (Idx (n + i) # fst e, snd e) \<in> set (errors (validate_items f n xs))"
proof (induction xs arbitrary: i n)
  case Nil
  then show ?case by simp
next
  case (Cons x xs)
  show ?case
  proof (cases i)
    case 0
    with Cons.prems show ?thesis
      by (force simp add: errors_ap errors_at_loc)
  next
    case (Suc j)
    with Cons.prems have "(Idx (Suc n + j) # fst e, snd e) \<in> set (errors (validate_items f (Suc n) xs))"
      by (intro Cons.IH) simp_all
    with Suc show ?thesis
      by (simp add: errors_ap)
  qed
qed

lemma errors_Certification_url:
  "map_of cobj ''pdf_url'' = Some (VStr s) \<Longrightarrow> U s = None \<Longrightarrow>
     ([Key ''pdf_url''], UrlParsing) \<in> set (errors (validate_Certification U (VDict cobj)))"
  by (simp add: validate_Certification.simps errors_ap errors_required_url)

lemma errors_certifications:
  assumes "map_of obj ''certifications'' = Some (VList cs)"
    and "i < length cs" and "cs ! i = VDict cobj"
    and "map_of cobj ''pdf_url'' = Some (VStr s)" and "U s = None"
  shows "([Key ''certifications'', Idx i, Key ''pdf_url''], UrlParsing)
           \<in> set (errors (list_field (validate_Certification U) obj ''certifications''))"
proof -
  have "([Key ''pdf_url''], UrlParsing) \<in> set (errors (validate_Certification U (cs ! i)))"
    using assms by (simp add: errors_Certification_url)
  with assms(2) have "(Idx (0 + i) # fst ([Key ''pdf_url''], UrlParsing), snd ([Key ''pdf_url''], UrlParsing))
      \<in> set (errors (validate_items (validate_Certification U) 0 cs))"
    by (rule errors_validate_items)
  then show ?thesis
    using assms(1) by (force simp add: list_field_def errors_at_loc)
qed

lemma sample_product_validates:
  "validate_Product sample_http_url sample_product_body = Inr sample_product"
  by (simp add: validate_Product.simps sample_product_body_def sample_product_def
        sample_http_url_def required_def list_field_def at_loc_def)


text \<open>
  C9: \<open>validate_Product\<close> accepts a payload only if \<open>image_url\<close>, \<open>spec_pdf_url\<close> and
  the \<open>pdf_url\<close> of every certification are strings that the URL grammar accepts; a
  payload that violates this is rejected with validation errors, which name the field
  (for a certification with its index) whose string is not a URL. The URL grammar is
  any parser \<open>U\<close>; a string is a URL when \<open>U\<close> gives a result for it. Validation takes no
  handle: it runs before, and apart from, any storage operation.
\<close>

theorem product_urls_validated:
  "(accepted (validate_Product U v) \<longrightarrow> product_urls_ok U v)
   \<and> (\<not> product_urls_ok U v \<longrightarrow> (\<exists>es. validate_Product U v = Inl es))
   \<and> (\<forall>s. v = VDict obj \<and> map_of obj ''image_url'' = Some (VStr s) \<and> U s = None \<longrightarrow>
          ([Key ''image_url''], UrlParsing) \<in> set (errors (validate_Product U v)))
   \<and> (\<forall>s. v = VDict obj \<and> map_of obj ''spec_pdf_url'' = Some (VStr s) \<and> U s = None \<longrightarrow>
          ([Key ''spec_pdf_url''], UrlParsing) \<in> set (errors (validate_Product U v)))
   \<and> (\<forall>cs i cobj s. v = VDict obj \<and> map_of obj ''certifications'' = Some (VList cs)
          \<and> i < length cs \<and> cs ! i = VDict cobj
          \<and> map_of cobj ''pdf_url'' = Some (VStr s) \<and> U s = None \<longrightarrow>
          ([Key ''certifications'', Idx i, Key ''pdf_url''], UrlParsing)
             \<in> set (errors (validate_Product U v)))"
proof (intro conjI allI impI)
  assume "accepted (validate_Product U v)"
  then show "product_urls_ok U v" by (rule accepted_Product_urls)
next
  assume "\<not> product_urls_ok U v"
  then have "\<not> accepted (validate_Product U v)"
    using accepted_Product_urls by blast
  then show "\<exists>es. validate_Product U v = Inl es"
    using rejected_errors by blast
next
  fix s assume "v = VDict obj \<and> map_of obj ''image_url'' = Some (VStr s) \<and> U s = None"
  then show "([Key ''image_url''], UrlParsing) \<in> set (errors (validate_Product U v))"
    by (simp add: errors_Product errors_required_url)
next
  fix s assume "v = VDict obj \<and> map_of obj ''spec_pdf_url'' = Some (VStr s) \<and> U s = None"
  then show "([Key ''spec_pdf_url''], UrlParsing) \<in> set (errors (validate_Product U v))"
    by (simp add: errors_Product errors_required_url)
next
  fix cs i cobj s
  assume "v = VDict obj \<and> map_of obj ''certifications'' = Some (VList cs)
          \<and> i < length cs \<and> cs ! i = VDict cobj
          \<and> map_of cobj ''pdf_url'' = Some (VStr s) \<and> U s = None"
  then show "([Key ''certifications'', Idx i, Key ''pdf_url''], UrlParsing)
             \<in> set (errors (validate_Product U v))"
    by (simp add: errors_Product errors_certifications)
qed


theorem product_urls_validated_witness:
  "product_urls_ok sample_http_url sample_product_body
   \<and> (\<exists>es. validate_Product sample_http_url
             (VDict [(''slug'', VStr ''valve''), (''image_url'', VStr ''ftp//x'')]) = Inl es)
   \<and> ([Key ''image_url''], UrlParsing) \<in> set (errors (validate_Product sample_http_url
             (VDict [(''slug'', VStr ''valve''), (''image_url'', VStr ''ftp//x'')])))"
proof -
  have "accepted (validate_Product sample_http_url sample_product_body)"
    by (simp add: sample_product_validates)
  with product_urls_validated [of sample_http_url sample_product_body]
  have 1: "product_urls_ok sample_http_url sample_product_body"
    by blast
  let ?bad = "[(''slug'', VStr ''valve''), (''image_url'', VStr ''ftp//x'')]"
  have nok: "\<not> product_urls_ok sample_http_url (VDict ?bad)"
    by (simp add: sample_http_url_def)
  have bad: "map_of ?bad ''image_url'' = Some (VStr ''ftp//x'') \<and> sample_http_url ''ftp//x'' = None"
    by (simp add: sample_http_url_def)
  from product_urls_validated [of sample_http_url "VDict ?bad" ?bad] nok bad
  have "(\<exists>es. validate_Product sample_http_url (VDict ?bad) = Inl es)
     \<and> ([Key ''image_url''], UrlParsing) \<in> set (errors (validate_Product sample_http_url (VDict ?bad)))"
    by blast
  with 1 show ?thesis by blast
qed

section \<open>Properties of the write path\<close>

lemma then_do_simps:
  "then_do (Inr u, s) f = f s"
  "then_do (Inl e, s) f = (Inl e, s)"
  by (simp_all add: then_do_def)

lemma stmt_simps:
  "stmt (Inr v, s) = (Inr (), s)"
  "stmt (Inl e, s) = (Inl e, s)"
  by (simp_all add: stmt_def)

lemma create_document_ok:
  "fault d = None \<Longrightarrow>
     create_document (Some d) cname data =
       (Inr (str_ObjectId (next_oid d)), Some (inserted d cname data))"
  by (simp add: create_document_def insert_one_def inserted_def)


lemma fault_inserted: "fault (inserted d cname data) = fault d"
  by (simp add: inserted_def)

lemma collection_inserted:
  "collection (inserted d cname data) c =
     (if c = cname
      then collection d cname @ [\<lparr>doc_id = Oid (next_oid d), doc_fields = data\<rparr>]
      else collection d c)"
  by (simp add: inserted_def collection_def update_conv')

lemma count_documents_all:
  "fault d = None \<Longrightarrow> count_documents d cname [] = Inr (length (collection d cname))"
  by (simp add: count_documents_def raise_fault_ok matches_empty_fun)

lemma count_documents_fault:
  "fault d = Some m \<Longrightarrow> count_documents d cname q = Inl (PyError m)"
  by (simp add: count_documents_def raise_fault_fails)

lemma seed_fault:
  "fault d = Some m \<Longrightarrow> seed_demo_data (Some d) = (Inl (PyError m), Some d)"
  by (simp add: seed_demo_data_def count_documents_fault)

lemma seed_unconfigured:
  "seed_demo_data None = (Inl (HTTPException 500 ''Database not configured''), None)"
  by (simp add: seed_demo_data_def)

lemma seed_nonempty:
  assumes "fault d = None"
    and "collection d ''product'' \<noteq> []"
    and "collection d ''casestudy'' \<noteq> []"
    and "collection d ''industrysolution'' \<noteq> []"
  shows "seed_demo_data (Some d) = (Inr [(''status'', VStr ''ok'')], Some d)"
  using assms by (simp add: seed_demo_data_def count_documents_all then_do_simps)

lemma seed_effect:
  assumes "fault d = None"
  shows "\<exists>d'. seed_demo_data (Some d) = (Inr [(''status'', VStr ''ok'')], Some d')
            \<and> fault d' = None
            \<and> collection d' ''product'' \<noteq> []
            \<and> collection d' ''casestudy'' \<noteq> []
            \<and> collection d' ''industrysolution'' \<noteq> []
            \<and> (\<forall>c. collection d c \<noteq> [] \<longrightarrow> collection d' c = collection d c)"
  using assms
  by (cases "collection d ''product'' = []"; cases "collection d ''casestudy'' = []";
      cases "collection d ''industrysolution'' = []")
     (simp_all add: seed_demo_data_def count_documents_all then_do_simps stmt_simps
        create_document_ok fault_inserted collection_inserted)

lemma seed_twice_state:
  "snd (seed_demo_data (snd (seed_demo_data db))) = snd (seed_demo_data db)"
proof (cases db)
  case None
  then show ?thesis by (simp add: seed_unconfigured)
next
  case (Some d)
  show ?thesis
  proof (cases "fault d")
    case None
    from seed_effect [OF None] obtain d' where
      d': "seed_demo_data (Some d) = (Inr [(''status'', VStr ''ok'')], Some d')"
      "fault d' = None" "collection d' ''product'' \<noteq> []"
      "collection d' ''casestudy'' \<noteq> []" "collection d' ''industrysolution'' \<noteq> []"
      by blast
    from seed_nonempty [OF d'(2-5)] d'(1) Some show ?thesis by simp
  next
    case (Some m)
    with \<open>db = Some d\<close> show ?thesis by (simp add: seed_fault)
  qed
qed

lemma seed_keeps_nonempty:
  assumes "collection d c \<noteq> []"
  shows "\<exists>d'. snd (seed_demo_data (Some d)) = Some d' \<and> collection d' c = collection d c"
proof (cases "fault d")
  case None
  from seed_effect [OF None] assms show ?thesis by force
next
  case (Some m)
  then show ?thesis by (simp add: seed_fault)
qed

text \<open>
  C2: \<open>/seed\<close> is idempotent. For every state of the handle (absent, answering, not
  answering) and every collection, the number of documents after a second call is the
  number after the first; and a collection that is not empty when \<open>/seed\<close> is called
  is left as it was.
\<close>

theorem seed_idempotent:
  "document_count (snd (seed_demo_data (snd (seed_demo_data db)))) c =
     document_count (snd (seed_demo_data db)) c
   \<and> (db = Some d \<and> collection d c \<noteq> [] \<longrightarrow>
        (\<exists>d'. snd (seed_demo_data db) = Some d' \<and> collection d' c = collection d c))"
  using seed_keeps_nonempty by (simp add: seed_twice_state)

theorem seed_idempotent_witness:
  "document_count (snd (seed_demo_data (Some empty_db))) ''product'' = 2
   \<and> document_count (snd (seed_demo_data (snd (seed_demo_data (Some empty_db))))) ''product'' = 2
   \<and> (\<exists>d'. snd (seed_demo_data (Some sample_db)) = Some d'
          \<and> collection d' ''product'' = collection sample_db ''product'')"
proof -
  have f: "fault empty_db = None" and e: "\<And>c. collection empty_db c = []"
    by (simp_all add: empty_db_def collection_def)
  have two: "document_count (snd (seed_demo_data (Some empty_db))) ''product'' = 2"
    by (simp add: seed_demo_data_def count_documents_all then_do_simps stmt_simps
          create_document_ok fault_inserted collection_inserted document_count_def f e)
  have ne: "collection sample_db ''product'' \<noteq> []"
    by (simp add: sample_db_def collection_def)
  from seed_idempotent [of "Some empty_db" "''product''"] two
    seed_idempotent [of "Some sample_db" "''product''" sample_db] ne
  show ?thesis by simp
qed

















end
